theory Spec2Isabelle
  imports Complex_Main
begin

section \<open>Data model (src/app/models.py)\<close>

text \<open>
  The models are SQLAlchemy classes. A row is a record of its columns; a relationship
  that the workflow reads (\<open>Service.history\<close>, \<open>Service.employee\<close>) is a field or a
  lookup. Python integers are \<open>int\<close>, nullable columns are \<open>option\<close>s, text columns are
  \<open>string\<close>s. The types \<open>datetime\<close> and \<open>float\<close> belong to Python, not to the
  repository: they are the type parameters \<open>'d\<close> and \<open>'c\<close>, and the two library calls
  made on them (\<open>strftime('%Y-%m-%d')\<close> and \<open>float(...)\<close>) are parameters of the
  operations that make them.

  Every method is embedded as a function from the object before the call to the pair of
  its outcome and the object after the call, so that a raise after an assignment keeps
  the assignment. An outcome is \<open>Inr\<close> of the returned value or \<open>Inl\<close> of the raised
  exception. \<open>db.session.add\<close> and \<open>db.session.commit\<close> act on the persistence
  layer only and logging acts on the log only; neither is part of the object.
\<close>

datatype error =
    ValueError string
  | AttributeError
  | ValidationError string

record user =
  user_id :: int
  username :: string
  role :: string
  first_name :: "string option"
  last_name :: "string option"

record service_history =
  hist_service_id :: int
  hist_user_id :: int
  hist_description :: string

record ('d, 'c) service =
  service_id :: int
  vehicle_id :: int
  client_id :: int
  employee_id :: "int option"
  description :: string
  priority :: string
  status :: string
  preferred_date :: "'d option"
  scheduled_date :: "'d option"
  diagnosis :: "string option"
  service_plan :: "string option"
  estimated_cost :: "'c option"
  actual_cost :: "'c option"
  parts_needed :: "string option"
  service_notes :: "string option"
  additional_notes :: "string option"
  created_at :: 'd
  updated_at :: 'd
  history :: "service_history list"

text \<open>
  Python truthiness of an integer column, as tested by \<open>not self.employee_id\<close>:
  \<open>None\<close> and \<open>0\<close> are false. A string is true when it is not empty.
\<close>

definition truthy_int :: "int option \<Rightarrow> bool" where
  "truthy_int x = (case x of None \<Rightarrow> False | Some n \<Rightarrow> n \<noteq> 0)"

text \<open>\<open>User.get_full_name\<close>.\<close>

definition get_full_name :: "user \<Rightarrow> string" where
  "get_full_name u =
     (case (first_name u, last_name u) of
        (Some f, Some l) \<Rightarrow> (if f \<noteq> [] \<and> l \<noteq> [] then f @ '' '' @ l else username u)
      | _ \<Rightarrow> username u)"

subsection \<open>Status constants and tables of class Service\<close>

named_theorems status_defs

definition STATUS_PENDING :: string where
  [status_defs]: "STATUS_PENDING = ''pending''"
definition STATUS_ACCEPTED :: string where
  [status_defs]: "STATUS_ACCEPTED = ''accepted''"
definition STATUS_SCHEDULED :: string where
  [status_defs]: "STATUS_SCHEDULED = ''scheduled''"
definition STATUS_CLIENT_CONFIRMED :: string where
  [status_defs]: "STATUS_CLIENT_CONFIRMED = ''client_confirmed''"
definition STATUS_WAITING_FOR_VEHICLE :: string where
  [status_defs]: "STATUS_WAITING_FOR_VEHICLE = ''waiting_for_vehicle''"
definition STATUS_VEHICLE_RECEIVED :: string where
  [status_defs]: "STATUS_VEHICLE_RECEIVED = ''vehicle_received''"
definition STATUS_DIAGNOSIS_PENDING :: string where
  [status_defs]: "STATUS_DIAGNOSIS_PENDING = ''diagnosis_pending''"
definition STATUS_DIAGNOSIS_COMPLETED :: string where
  [status_defs]: "STATUS_DIAGNOSIS_COMPLETED = ''diagnosis_completed''"
definition STATUS_CLIENT_CONSULTATION :: string where
  [status_defs]: "STATUS_CLIENT_CONSULTATION = ''client_consultation''"
definition STATUS_CLIENT_APPROVED :: string where
  [status_defs]: "STATUS_CLIENT_APPROVED = ''client_approved''"
definition STATUS_WAITING_FOR_PARTS :: string where
  [status_defs]: "STATUS_WAITING_FOR_PARTS = ''waiting_for_parts''"
definition STATUS_IN_PROGRESS :: string where
  [status_defs]: "STATUS_IN_PROGRESS = ''in_progress''"
definition STATUS_COMPLETED :: string where
  [status_defs]: "STATUS_COMPLETED = ''completed''"
definition STATUS_READY_FOR_PAYMENT :: string where
  [status_defs]: "STATUS_READY_FOR_PAYMENT = ''ready_for_payment''"
definition STATUS_PAYMENT_RECEIVED :: string where
  [status_defs]: "STATUS_PAYMENT_RECEIVED = ''payment_received''"
definition STATUS_READY_FOR_PICKUP :: string where
  [status_defs]: "STATUS_READY_FOR_PICKUP = ''ready_for_pickup''"
definition STATUS_FINISHED :: string where
  [status_defs]: "STATUS_FINISHED = ''finished''"
definition STATUS_CANCELLED :: string where
  [status_defs]: "STATUS_CANCELLED = ''cancelled''"

text \<open>The dict literal \<open>STATUS_TRANSITIONS\<close>, key by key in the order of the source.\<close>

definition STATUS_TRANSITIONS :: "(string \<times> string list) list" where
  "STATUS_TRANSITIONS =
    [(STATUS_PENDING, [STATUS_ACCEPTED, STATUS_CANCELLED]),
     (STATUS_ACCEPTED, [STATUS_SCHEDULED, STATUS_CANCELLED, STATUS_WAITING_FOR_VEHICLE]),
     (STATUS_SCHEDULED, [STATUS_CLIENT_CONFIRMED, STATUS_PENDING, STATUS_CANCELLED]),
     (STATUS_CLIENT_CONFIRMED, [STATUS_WAITING_FOR_VEHICLE, STATUS_CANCELLED]),
     (STATUS_WAITING_FOR_VEHICLE, [STATUS_VEHICLE_RECEIVED, STATUS_CANCELLED]),
     (STATUS_VEHICLE_RECEIVED, [STATUS_DIAGNOSIS_PENDING, STATUS_CANCELLED]),
     (STATUS_DIAGNOSIS_PENDING, [STATUS_DIAGNOSIS_COMPLETED, STATUS_CANCELLED]),
     (STATUS_DIAGNOSIS_COMPLETED,
        [STATUS_CLIENT_APPROVED, STATUS_CLIENT_CONSULTATION, STATUS_CANCELLED]),
     (STATUS_CLIENT_CONSULTATION, [STATUS_DIAGNOSIS_COMPLETED, STATUS_CANCELLED]),
     (STATUS_CLIENT_APPROVED,
        [STATUS_WAITING_FOR_PARTS, STATUS_IN_PROGRESS, STATUS_CANCELLED]),
     (STATUS_WAITING_FOR_PARTS, [STATUS_IN_PROGRESS, STATUS_CANCELLED]),
     (STATUS_IN_PROGRESS, [STATUS_COMPLETED, STATUS_CANCELLED]),
     (STATUS_COMPLETED, [STATUS_READY_FOR_PAYMENT, STATUS_CANCELLED]),
     (STATUS_READY_FOR_PAYMENT, [STATUS_PAYMENT_RECEIVED, STATUS_CANCELLED]),
     (STATUS_PAYMENT_RECEIVED,
        [STATUS_READY_FOR_PICKUP, STATUS_IN_PROGRESS, STATUS_CANCELLED]),
     (STATUS_READY_FOR_PICKUP, [STATUS_FINISHED, STATUS_CANCELLED]),
     (STATUS_FINISHED, []),
     (STATUS_CANCELLED, [])]"

text \<open>\<open>STATUS_TRANSITIONS.get(status, [])\<close>.\<close>

definition transitions_get :: "string \<Rightarrow> string list" where
  "transitions_get st = (case map_of STATUS_TRANSITIONS st of None \<Rightarrow> [] | Some ts \<Rightarrow> ts)"

definition CLIENT_CANCELLABLE_STATES :: "string list" where
  "CLIENT_CANCELLABLE_STATES = [STATUS_PENDING, STATUS_SCHEDULED, STATUS_CLIENT_CONFIRMED]"

definition CLIENT_DATE_CHANGE_STATES :: "string list" where
  "CLIENT_DATE_CHANGE_STATES = [STATUS_SCHEDULED, STATUS_CLIENT_CONFIRMED]"

definition EMPLOYEE_DATE_PROPOSAL_STATES :: "string list" where
  "EMPLOYEE_DATE_PROPOSAL_STATES = [STATUS_PENDING, STATUS_ACCEPTED]"

definition EMPLOYEE_REQUIRED_STATES :: "string list" where
  "EMPLOYEE_REQUIRED_STATES =
    [STATUS_ACCEPTED, STATUS_SCHEDULED, STATUS_CLIENT_CONFIRMED, STATUS_WAITING_FOR_VEHICLE,
     STATUS_VEHICLE_RECEIVED, STATUS_DIAGNOSIS_PENDING, STATUS_DIAGNOSIS_COMPLETED,
     STATUS_CLIENT_CONSULTATION, STATUS_CLIENT_APPROVED, STATUS_WAITING_FOR_PARTS,
     STATUS_IN_PROGRESS, STATUS_COMPLETED, STATUS_READY_FOR_PAYMENT,
     STATUS_PAYMENT_RECEIVED, STATUS_READY_FOR_PICKUP, STATUS_FINISHED]"

subsection \<open>Queries of class Service\<close>

text \<open>
  \<open>Service.can_transition_to\<close>: two guarded early returns, then \<open>True\<close>. The body
  assigns nothing, so the object comes back as it went in.
\<close>

definition can_transition_to :: "('d, 'c) service \<Rightarrow> string \<Rightarrow> bool \<times> ('d, 'c) service" where
  "can_transition_to self new_status =
     (if new_status \<notin> set (transitions_get (status self)) then (False, self)
      else if new_status \<in> set EMPLOYEE_REQUIRED_STATES \<and> \<not> truthy_int (employee_id self)
        then (False, self)
      else (True, self))"

text \<open>\<open>Service.can_client_cancel\<close> and \<open>Service.can_client_request_date_change\<close>.\<close>

definition can_client_cancel :: "('d, 'c) service \<Rightarrow> bool \<times> ('d, 'c) service" where
  "can_client_cancel self = (status self \<in> set CLIENT_CANCELLABLE_STATES, self)"

definition can_client_request_date_change :: "('d, 'c) service \<Rightarrow> bool \<times> ('d, 'c) service" where
  "can_client_request_date_change self = (status self \<in> set CLIENT_DATE_CHANGE_STATES, self)"

subsection \<open>Workflow operations of class Service\<close>

text \<open>
  \<open>Service.add_history_entry\<close>: a new \<open>ServiceHistory\<close> row for this service is
  appended to the relationship \<open>self.history\<close>. The row's key and timestamp are given
  by the database when the session is flushed.
\<close>

definition add_history_entry ::
  "('d, 'c) service \<Rightarrow> string \<Rightarrow> int \<Rightarrow> ('d, 'c) service" where
  "add_history_entry self descr uid =
     self\<lparr>history := history self @
       [\<lparr>hist_service_id = service_id self, hist_user_id = uid, hist_description = descr\<rparr>]\<rparr>"

text \<open>\<open>Service.update_status\<close>.\<close>

definition update_status ::
  "('d, 'c) service \<Rightarrow> string \<Rightarrow> int \<Rightarrow> string option \<Rightarrow> (error + unit) \<times> ('d, 'c) service" where
  "update_status self new_status uid additional_info =
     (case can_transition_to self new_status of (ok, self1) \<Rightarrow>
        if \<not> ok then
          (if new_status \<in> set EMPLOYEE_REQUIRED_STATES \<and> \<not> truthy_int (employee_id self1)
           then (Inl (ValueError ''Cannot transition to this status without assigned employee''),
                 self1)
           else (Inl (ValueError (''Invalid status transition from '' @ status self1 @
                                  '' to '' @ new_status)), self1))
        else
          (let old_status = status self1;
               self2 = self1\<lparr>status := new_status\<rparr>;
               descr = ''Status changed from '' @ old_status @ '' to '' @ new_status;
               descr' = (case additional_info of
                           None \<Rightarrow> descr
                         | Some info \<Rightarrow> if info \<noteq> [] then descr @ '': '' @ info else descr)
           in (Inr (), add_history_entry self2 descr' uid)))"

text \<open>
  \<open>Service.assign_employee\<close>. \<open>users\<close> is \<open>User.query.get\<close>; calling
  \<open>get_full_name\<close> on its \<open>None\<close> raises AttributeError. In the pending branch the
  status has been assigned before the f-string is evaluated. \<open>self.employee\<close> is the
  user that \<open>employee_id\<close> refers to.
\<close>

definition employee :: "(int \<Rightarrow> user option) \<Rightarrow> ('d, 'c) service \<Rightarrow> user option" where
  "employee users self = (case employee_id self of None \<Rightarrow> None | Some e \<Rightarrow> users e)"

definition assign_employee ::
  "(int \<Rightarrow> user option) \<Rightarrow> ('d, 'c) service \<Rightarrow> int \<Rightarrow> int \<Rightarrow>
   (error + unit) \<times> ('d, 'c) service" where
  "assign_employee users self new_employee_id uid =
     (if status self = STATUS_PENDING then
        (let self1 = self\<lparr>status := STATUS_ACCEPTED\<rparr> in
         case users new_employee_id of
           None \<Rightarrow> (Inl AttributeError, self1)
         | Some e \<Rightarrow>
             (Inr (), (add_history_entry self1 (''Service assigned to '' @ get_full_name e) uid)
                        \<lparr>employee_id := Some new_employee_id\<rparr>))
      else
        (let old_employee =
               (case employee users self of Some u \<Rightarrow> get_full_name u | None \<Rightarrow> ''None'') in
         case users new_employee_id of
           None \<Rightarrow> (Inl AttributeError, self)
         | Some e \<Rightarrow>
             (let new_employee = get_full_name e in
              (Inr (), (add_history_entry self
                          (''Service reassigned from '' @ old_employee @ '' to '' @ new_employee)
                          uid)
                         \<lparr>employee_id := Some new_employee_id\<rparr>))))"

text \<open>
  \<open>Service.request_date_change\<close>. \<open>strftime\<close> is
  \<open>new_date.strftime('%Y-%m-%d')\<close>.
\<close>

definition request_date_change ::
  "('d \<Rightarrow> string) \<Rightarrow> ('d, 'c) service \<Rightarrow> 'd \<Rightarrow> int \<Rightarrow> bool \<Rightarrow>
   (error + unit) \<times> ('d, 'c) service" where
  "request_date_change strftime self new_date uid is_client_request =
     (if is_client_request \<and>
         status self \<notin> set [STATUS_PENDING, STATUS_ACCEPTED, STATUS_SCHEDULED]
      then (Inl (ValueError
              ''Client can only request date changes for pending or scheduled services''),
            self)
      else
        (let self1 = self\<lparr>preferred_date := Some new_date\<rparr> in
         if is_client_request then
           (Inr (), add_history_entry (self1\<lparr>status := STATUS_PENDING\<rparr>)
                      (''Client requested date change to '' @ strftime new_date) uid)
         else
           (Inr (), add_history_entry
                      (self1\<lparr>status := STATUS_SCHEDULED, scheduled_date := Some new_date\<rparr>)
                      (''Employee proposed new date: '' @ strftime new_date) uid)))"

text \<open>\<open>Service.confirm_date\<close>, \<open>Service.reject_date\<close> and \<open>Service.cancel\<close>.\<close>

definition confirm_date :: "('d, 'c) service \<Rightarrow> int \<Rightarrow> (error + unit) \<times> ('d, 'c) service" where
  "confirm_date self uid =
     (if status self \<noteq> STATUS_SCHEDULED
        then (Inl (ValueError ''Can only confirm dates for scheduled services''), self)
      else if \<not> truthy_int (employee_id self)
        then (Inl (ValueError ''Cannot confirm date without assigned employee''), self)
      else (Inr (), add_history_entry (self\<lparr>status := STATUS_CLIENT_CONFIRMED\<rparr>)
                      ''Client confirmed the scheduled date'' uid))"

definition reject_date ::
  "('d, 'c) service \<Rightarrow> int \<Rightarrow> string option \<Rightarrow> (error + unit) \<times> ('d, 'c) service" where
  "reject_date self uid reason =
     (if status self \<noteq> STATUS_SCHEDULED
        then (Inl (ValueError ''Can only reject dates for scheduled services''), self)
      else
        (let self1 = self\<lparr>status := STATUS_PENDING\<rparr>;
             descr = ''Client rejected the scheduled date'';
             descr' = (case reason of
                         None \<Rightarrow> descr
                       | Some r \<Rightarrow> if r \<noteq> [] then descr @ '': '' @ r else descr)
         in (Inr (), add_history_entry self1 descr' uid)))"

definition cancel ::
  "('d, 'c) service \<Rightarrow> int \<Rightarrow> string option \<Rightarrow> (error + unit) \<times> ('d, 'c) service" where
  "cancel self uid reason =
     (case can_transition_to self STATUS_CANCELLED of (ok, self1) \<Rightarrow>
        if \<not> ok
          then (Inl (ValueError ''Service cannot be cancelled in its current state''), self1)
        else
          (let self2 = self1\<lparr>status := STATUS_CANCELLED\<rparr>;
               descr = ''Service cancelled'';
               descr' = (case reason of
                           None \<Rightarrow> descr
                         | Some r \<Rightarrow> if r \<noteq> [] then descr @ '': '' @ r else descr)
           in (Inr (), add_history_entry self2 descr' uid)))"

text \<open>
  \<open>Service.validate_costs\<close>. The routes pass \<open>request.form.get(...)\<close>, a string or
  \<open>None\<close>. \<open>float\<close> is Python's \<open>float\<close> on a string: \<open>None\<close> where it raises
  ValueError. The estimated cost is handled, and stored, before the actual cost is
  looked at.
\<close>

definition validate_costs ::
  "(string \<Rightarrow> 'c option) \<Rightarrow> ('d, 'c) service \<Rightarrow> string option \<Rightarrow> string option \<Rightarrow>
   (error + unit) \<times> ('d, 'c) service" where
  "validate_costs float self estimated actual =
     (let r1 =
        (case estimated of
           None \<Rightarrow> (Inr (), self)
         | Some e \<Rightarrow>
             if e \<noteq> [] then
               (case float e of
                  Some v \<Rightarrow> (Inr (), self\<lparr>estimated_cost := Some v\<rparr>)
                | None \<Rightarrow> (Inl (ValueError ''Estimated cost must be a valid number''), self))
             else (Inr (), self\<lparr>estimated_cost := None\<rparr>))
      in case r1 of
           (Inl err, self1) \<Rightarrow> (Inl err, self1)
         | (Inr u, self1) \<Rightarrow>
             (case actual of
                None \<Rightarrow> (Inr (), self1)
              | Some a \<Rightarrow>
                  if a \<noteq> [] then
                    (case float a of
                       Some v \<Rightarrow> (Inr (), self1\<lparr>actual_cost := Some v\<rparr>)
                     | None \<Rightarrow> (Inl (ValueError ''Actual cost must be a valid number''), self1))
                  else (Inr (), self1\<lparr>actual_cost := None\<rparr>)))"

section \<open>Vehicle forms (src/app/forms.py)\<close>

text \<open>
  The three vehicle forms, \<open>VehicleForm\<close> (admin routes), \<open>ClientVehicleForm\<close>
  (client routes) and \<open>EmployeeVehicleForm\<close> (employee routes), carry the same two
  inline validators, \<open>validate_vin\<close> and \<open>validate_license_plate\<close>, word for word.
  The table \<open>vehicles\<close> is the list of its rows in the order the query yields them;
  \<open>Vehicle.query.filter_by(...).first()\<close> is the first row that matches.
  \<open>self.vehicle\<close> is the \<open>obj\<close> the form was built with: \<open>None\<close> on create,
  the vehicle being edited on update.
\<close>

record vehicle =
  veh_id :: int
  owner_id :: int
  veh_make :: string
  veh_model :: string
  year :: int
  vin :: string
  license_plate :: string
  color :: "string option"
  mileage :: "int option"

definition validate_vin :: "vehicle list \<Rightarrow> vehicle option \<Rightarrow> string \<Rightarrow> error + unit" where
  "validate_vin vehicles self_vehicle vin_data =
     (case find (\<lambda>v. vin v = vin_data) vehicles of
        None \<Rightarrow> Inr ()
      | Some vehicle \<Rightarrow>
          (case self_vehicle of
             None \<Rightarrow> Inl (ValidationError ''This VIN is already registered.'')
           | Some own \<Rightarrow>
               if veh_id vehicle \<noteq> veh_id own
                 then Inl (ValidationError ''This VIN is already registered.'')
               else Inr ()))"

definition validate_license_plate ::
  "vehicle list \<Rightarrow> vehicle option \<Rightarrow> string \<Rightarrow> error + unit" where
  "validate_license_plate vehicles self_vehicle license_plate_data =
     (case find (\<lambda>v. license_plate v = license_plate_data) vehicles of
        None \<Rightarrow> Inr ()
      | Some vehicle \<Rightarrow>
          (case self_vehicle of
             None \<Rightarrow> Inl (ValidationError ''This license plate is already registered.'')
           | Some own \<Rightarrow>
               if veh_id vehicle \<noteq> veh_id own
                 then Inl (ValidationError ''This license plate is already registered.'')
               else Inr ()))"

text \<open>
  The validators of the field \<open>year\<close>: \<open>DataRequired()\<close>, which stops the chain on a
  false value, then \<open>NumberRange\<close>. \<open>VehicleForm\<close> and \<open>ClientVehicleForm\<close> give
  \<open>NumberRange(min=1900, max=datetime.now().year + 1, message=...)\<close>
  (\<open>validate_year\<close>); \<open>EmployeeVehicleForm\<close> gives
  \<open>NumberRange(min=1900, max=datetime.now().year, message='Year must be between 1900
  and current year')\<close> (\<open>employee_validate_year\<close>). \<open>now_year\<close> is
  \<open>datetime.now().year\<close> and \<open>message\<close> the f-string, both evaluated once, when
  the class body runs. The field's data is \<open>None\<close> when the input is not an integer.
\<close>

definition DataRequired :: "int option \<Rightarrow> error + unit" where
  "DataRequired data =
     (case data of
        None \<Rightarrow> Inl (ValidationError ''This field is required.'')
      | Some y \<Rightarrow> if y \<noteq> 0 then Inr () else Inl (ValidationError ''This field is required.''))"

definition NumberRange :: "int \<Rightarrow> int \<Rightarrow> string \<Rightarrow> int option \<Rightarrow> error + unit" where
  "NumberRange lo hi message data =
     (case data of
        None \<Rightarrow> Inl (ValidationError message)
      | Some y \<Rightarrow> if lo \<le> y \<and> y \<le> hi then Inr () else Inl (ValidationError message))"

definition validate_year :: "int \<Rightarrow> string \<Rightarrow> int option \<Rightarrow> error + unit" where
  "validate_year now_year message data =
     (case DataRequired data of
        Inl err \<Rightarrow> Inl err
      | Inr u \<Rightarrow> NumberRange 1900 (now_year + 1) message data)"

definition employee_validate_year :: "int \<Rightarrow> int option \<Rightarrow> error + unit" where
  "employee_validate_year now_year data =
     (case DataRequired data of
        Inl err \<Rightarrow> Inl err
      | Inr u \<Rightarrow> NumberRange 1900 now_year ''Year must be between 1900 and current year'' data)"

section \<open>The tables as the specification words them\<close>

text \<open>
  The transition table, the state set and the employee-required subset as the
  specification lists them, to be compared with the constants of the class.
\<close>

definition spec_edges :: "(string \<times> string) set" where
  "spec_edges =
    {(''pending'', ''accepted''), (''pending'', ''cancelled''),
     (''accepted'', ''scheduled''), (''accepted'', ''waiting_for_vehicle''),
     (''accepted'', ''cancelled''),
     (''scheduled'', ''client_confirmed''), (''scheduled'', ''pending''),
     (''scheduled'', ''cancelled''),
     (''client_confirmed'', ''waiting_for_vehicle''), (''client_confirmed'', ''cancelled''),
     (''waiting_for_vehicle'', ''vehicle_received''), (''waiting_for_vehicle'', ''cancelled''),
     (''vehicle_received'', ''diagnosis_pending''), (''vehicle_received'', ''cancelled''),
     (''diagnosis_pending'', ''diagnosis_completed''), (''diagnosis_pending'', ''cancelled''),
     (''diagnosis_completed'', ''client_approved''),
     (''diagnosis_completed'', ''client_consultation''),
     (''diagnosis_completed'', ''cancelled''),
     (''client_consultation'', ''diagnosis_completed''),
     (''client_consultation'', ''cancelled''),
     (''client_approved'', ''waiting_for_parts''), (''client_approved'', ''in_progress''),
     (''client_approved'', ''cancelled''),
     (''waiting_for_parts'', ''in_progress''), (''waiting_for_parts'', ''cancelled''),
     (''in_progress'', ''completed''), (''in_progress'', ''cancelled''),
     (''completed'', ''ready_for_payment''), (''completed'', ''cancelled''),
     (''ready_for_payment'', ''payment_received''), (''ready_for_payment'', ''cancelled''),
     (''payment_received'', ''ready_for_pickup''), (''payment_received'', ''in_progress''),
     (''payment_received'', ''cancelled''),
     (''ready_for_pickup'', ''finished''), (''ready_for_pickup'', ''cancelled'')}"

definition spec_states :: "string list" where
  "spec_states =
    [''pending'', ''accepted'', ''scheduled'', ''client_confirmed'', ''waiting_for_vehicle'',
     ''vehicle_received'', ''diagnosis_pending'', ''diagnosis_completed'',
     ''client_consultation'', ''client_approved'', ''waiting_for_parts'', ''in_progress'',
     ''completed'', ''ready_for_payment'', ''payment_received'', ''ready_for_pickup'',
     ''finished'', ''cancelled'']"

definition spec_employee_required :: "string \<Rightarrow> bool" where
  "spec_employee_required t =
     (t \<in> set spec_states \<and> t \<noteq> ''pending'' \<and> t \<noteq> ''cancelled'')"

text \<open>The pairs (key, element) of a dict of lists.\<close>

fun edges_of :: "('a \<times> 'b list) list \<Rightarrow> ('a \<times> 'b) list" where
  "edges_of [] = []"
| "edges_of ((k, vs) # ps) = map (Pair k) vs @ edges_of ps"

section \<open>Rows written to the history\<close>

text \<open>
  The row that a status change from \<open>status s\<close> to \<open>t\<close> writes for the user
  \<open>u\<close>; a note that is \<open>None\<close> or empty adds nothing to the description.
\<close>

definition status_change_entry ::
  "('d, 'c) service \<Rightarrow> string \<Rightarrow> int \<Rightarrow> string option \<Rightarrow> service_history" where
  "status_change_entry s t u n =
     \<lparr>hist_service_id = service_id s, hist_user_id = u,
      hist_description = ''Status changed from '' @ status s @ '' to '' @ t @
        (case n of None \<Rightarrow> [] | Some i \<Rightarrow> if i = [] then [] else '': '' @ i)\<rparr>"

section \<open>Sequences of workflow operations\<close>

text \<open>
  A call of one of the six workflow operations with its arguments, and a sequence of
  calls made one after the other on the same service. An exception ends the sequence,
  as it ends the request that made the call: \<open>run_ops\<close> is \<open>None\<close> then.
\<close>

datatype 'd workflow_op =
    UpdateStatus string int "string option"
  | AssignEmployee int int
  | RequestDateChange 'd int bool
  | ConfirmDate int
  | RejectDate int "string option"
  | Cancel int "string option"

fun apply_op ::
  "(int \<Rightarrow> user option) \<Rightarrow> ('d \<Rightarrow> string) \<Rightarrow> ('d, 'c) service \<Rightarrow> 'd workflow_op \<Rightarrow>
   (error + unit) \<times> ('d, 'c) service" where
  "apply_op users strftime s (UpdateStatus t u n) = update_status s t u n"
| "apply_op users strftime s (AssignEmployee e u) = assign_employee users s e u"
| "apply_op users strftime s (RequestDateChange d u c) = request_date_change strftime s d u c"
| "apply_op users strftime s (ConfirmDate u) = confirm_date s u"
| "apply_op users strftime s (RejectDate u r) = reject_date s u r"
| "apply_op users strftime s (Cancel u r) = cancel s u r"

fun run_ops ::
  "(int \<Rightarrow> user option) \<Rightarrow> ('d \<Rightarrow> string) \<Rightarrow> ('d, 'c) service \<Rightarrow> 'd workflow_op list \<Rightarrow>
   ('d, 'c) service option" where
  "run_ops users strftime s [] = Some s"
| "run_ops users strftime s (op # ops) =
     (case apply_op users strftime s op of
        (Inl err, s') \<Rightarrow> None
      | (Inr u, s') \<Rightarrow> run_ops users strftime s' ops)"

text \<open>
  The employee rule that every operation establishes: outside the state scheduled, an
  employee-required status comes with an employee.
\<close>

definition employee_invariant :: "('d, 'c) service \<Rightarrow> bool" where
  "employee_invariant s =
     (status s \<in> set EMPLOYEE_REQUIRED_STATES \<and> status s \<noteq> STATUS_SCHEDULED
        \<longrightarrow> employee_id s \<noteq> None)"

section \<open>Vehicles other than the one being edited\<close>

text \<open>
  The test \<open>self.vehicle is None or vehicle.id != self.vehicle.id\<close> of the two
  inline validators: on create every stored vehicle is another vehicle, on update every
  vehicle with another key is.
\<close>

definition other_vehicle :: "vehicle option \<Rightarrow> vehicle \<Rightarrow> bool" where
  "other_vehicle self_vehicle v =
     (case self_vehicle of None \<Rightarrow> True | Some own \<Rightarrow> veh_id v \<noteq> veh_id own)"

section \<open>Cost inputs\<close>

text \<open>
  An input that makes its cost setter raise: a string that is not empty and that
  \<open>float\<close> refuses.
\<close>

definition cost_refused :: "(string \<Rightarrow> 'c option) \<Rightarrow> string option \<Rightarrow> bool" where
  "cost_refused float inp =
     (case inp of None \<Rightarrow> False | Some x \<Rightarrow> x \<noteq> [] \<and> float x = None)"

section \<open>Sample data\<close>

text \<open>
  A service as \<open>routes/client.py\<close> creates it, one employee, and a stand-in for
  \<open>float\<close> on the inputs used below. Dates are written as ISO strings.
\<close>

definition sample_service :: "(string, real) service" where
  "sample_service =
     \<lparr>service_id = 1, vehicle_id = 3, client_id = 2, employee_id = None,
      description = ''Oil change'', priority = ''normal'', status = STATUS_PENDING,
      preferred_date = Some ''2025-03-01T09:00'', scheduled_date = None, diagnosis = None,
      service_plan = None, estimated_cost = None, actual_cost = None, parts_needed = None,
      service_notes = None, additional_notes = None, created_at = ''2025-02-01T08:00'',
      updated_at = ''2025-02-01T08:00'', history = []\<rparr>"

definition sample_users :: "int \<Rightarrow> user option" where
  "sample_users i =
     (if i = 7 then Some \<lparr>user_id = 7, username = ''anowak'', role = ''employee'',
                          first_name = Some ''Anna'', last_name = Some ''Nowak''\<rparr>
      else None)"

definition sample_float :: "string \<Rightarrow> real option" where
  "sample_float x = (if x = ''150.5'' then Some 150.5 else None)"

definition sample_vehicles :: "vehicle list" where
  "sample_vehicles =
     [\<lparr>veh_id = 1, owner_id = 2, veh_make = ''Skoda'', veh_model = ''Fabia'', year = 2015,
       vin = ''TMBJB16Y123456789'', license_plate = ''WA12345'', color = None,
       mileage = None\<rparr>,
      \<lparr>veh_id = 3, owner_id = 2, veh_make = ''Opel'', veh_model = ''Astra'', year = 2019,
       vin = ''W0L0AHL48K1234567'', license_plate = ''KR98765'', color = Some ''red'',
       mileage = Some 42000\<rparr>]"

section \<open>Transition table and guards\<close>

lemma edges_of_key: "(k, x) \<in> set (edges_of ps) \<Longrightarrow> k \<in> fst ` set ps"
  by (induction ps rule: edges_of.induct) auto

lemma map_of_edges:
  "distinct (map fst ps) \<Longrightarrow>
   (t \<in> set (case map_of ps st of None \<Rightarrow> [] | Some ts \<Rightarrow> ts)) =
   ((st, t) \<in> set (edges_of ps))"
proof (induction ps rule: edges_of.induct)
  case 1
  then show ?case by simp
next
  case (2 k vs ps)
  from "2.prems" have fresh: "k \<notin> fst ` set ps" and d: "distinct (map fst ps)"
    by simp_all
  show ?case
  proof (cases "st = k")
    case True
    with fresh edges_of_key [of k t ps] show ?thesis by auto
  next
    case False
    with "2.IH" [OF d] show ?thesis by auto
  qed
qed

lemma keys_distinct: "distinct (map fst STATUS_TRANSITIONS)"
  unfolding STATUS_TRANSITIONS_def status_defs by simp

lemma edges_eq: "set (edges_of STATUS_TRANSITIONS) = spec_edges"
  unfolding STATUS_TRANSITIONS_def status_defs spec_edges_def
  by (simp add: insert_commute)

lemma transitions_get_spec:
  "(t \<in> set (transitions_get st)) = ((st, t) \<in> spec_edges)"
  by (simp only: transitions_get_def map_of_edges [OF keys_distinct] edges_eq)

lemma employee_required_spec:
  "(t \<in> set EMPLOYEE_REQUIRED_STATES) = spec_employee_required t"
  unfolding EMPLOYEE_REQUIRED_STATES_def status_defs spec_employee_required_def spec_states_def
  by auto


lemma truthy_int_iff: "x \<noteq> Some 0 \<Longrightarrow> truthy_int x = (x \<noteq> None)"
  by (cases x) (simp_all add: truthy_int_def)

text \<open>
  C1. For every service and every target \<open>t\<close>, \<open>can_transition_to\<close> answers true
  exactly when \<open>t\<close> is in the list that \<open>STATUS_TRANSITIONS\<close> holds for the current
  status and \<open>t\<close> is not employee-required or the employee is set, and it hands the
  service back as it was. The lists are the edges of the specification's table, and the
  employee-required states are all states but pending and cancelled. The lists of
  finished and cancelled are empty. The employee is set when \<open>employee_id\<close> is true in
  Python's sense: not \<open>None\<close> and not 0 (keys of the users table start at 1).
\<close>

theorem can_transition_to_spec:
  "can_transition_to s t =
     (t \<in> set (transitions_get (status s)) \<and>
      (t \<notin> set EMPLOYEE_REQUIRED_STATES \<or> truthy_int (employee_id s)), s)
   \<and> fst (can_transition_to s t) =
     ((status s, t) \<in> spec_edges \<and>
      (\<not> spec_employee_required t \<or> truthy_int (employee_id s)))
   \<and> transitions_get STATUS_FINISHED = [] \<and> transitions_get STATUS_CANCELLED = []"
proof -
  have eq: "can_transition_to s t =
     (t \<in> set (transitions_get (status s)) \<and>
      (t \<notin> set EMPLOYEE_REQUIRED_STATES \<or> truthy_int (employee_id s)), s)"
    by (simp add: can_transition_to_def)
  have fin: "transitions_get STATUS_FINISHED = []"
    by (simp add: transitions_get_def STATUS_TRANSITIONS_def status_defs)
  have can: "transitions_get STATUS_CANCELLED = []"
    by (simp add: transitions_get_def STATUS_TRANSITIONS_def status_defs)
  show ?thesis
    by (simp only: eq fin can fst_conv transitions_get_spec employee_required_spec simp_thms)
qed

theorem can_transition_to_spec_witness:
  "can_transition_to (sample_service\<lparr>status := ''accepted'', employee_id := Some 7\<rparr>)
     ''scheduled'' = (True, sample_service\<lparr>status := ''accepted'', employee_id := Some 7\<rparr>)
   \<and> can_transition_to (sample_service\<lparr>status := ''accepted''\<rparr>) ''scheduled''
       = (False, sample_service\<lparr>status := ''accepted''\<rparr>)
   \<and> can_transition_to (sample_service\<lparr>status := ''finished'', employee_id := Some 7\<rparr>)
       ''cancelled''
       = (False, sample_service\<lparr>status := ''finished'', employee_id := Some 7\<rparr>)"
  using can_transition_to_spec
          [of "sample_service\<lparr>status := ''accepted'', employee_id := Some 7\<rparr>" "''scheduled''"]
        can_transition_to_spec [of "sample_service\<lparr>status := ''accepted''\<rparr>" "''scheduled''"]
        can_transition_to_spec
          [of "sample_service\<lparr>status := ''finished'', employee_id := Some 7\<rparr>" "''cancelled''"]
  by (simp add: sample_service_def transitions_get_def STATUS_TRANSITIONS_def
        EMPLOYEE_REQUIRED_STATES_def status_defs truthy_int_def)

section \<open>Status updates\<close>

lemma update_status_cases:
  "update_status s t u n =
     (if fst (can_transition_to s t)
        then (Inr (), s\<lparr>status := t, history := history s @ [status_change_entry s t u n]\<rparr>)
      else if t \<in> set EMPLOYEE_REQUIRED_STATES \<and> \<not> truthy_int (employee_id s)
        then (Inl (ValueError ''Cannot transition to this status without assigned employee''), s)
      else (Inl (ValueError (''Invalid status transition from '' @ status s @ '' to '' @ t)), s))"
  by (simp add: update_status_def can_transition_to_def add_history_entry_def
        status_change_entry_def Let_def split: option.split)

text \<open>
  C2. When \<open>update_status\<close> returns, the service is the old one with the new
  status and one more history row, "Status changed from old to new", followed by
  ": note" when a note is given (not \<open>None\<close> and not empty), written for this
  service and for the acting user. When it raises, the service, its history included,
  is the one before the call.
\<close>

theorem update_status_atomic:
  "(fst (update_status s t u n) = Inr () \<longrightarrow>
      snd (update_status s t u n) =
        s\<lparr>status := t, history := history s @ [status_change_entry s t u n]\<rparr>
      \<and> status (snd (update_status s t u n)) = t
      \<and> length (history (snd (update_status s t u n))) = Suc (length (history s)))
   \<and> (fst (update_status s t u n) \<noteq> Inr () \<longrightarrow> snd (update_status s t u n) = s)"
  by (simp add: update_status_cases)

theorem update_status_atomic_witness:
  "update_status (sample_service\<lparr>status := ''accepted'', employee_id := Some 7\<rparr>)
     ''scheduled'' 7 (Some ''Tuesday'')
   = (Inr (), sample_service\<lparr>status := ''scheduled'', employee_id := Some 7,
        history := [\<lparr>hist_service_id = 1, hist_user_id = 7,
           hist_description = ''Status changed from accepted to scheduled: Tuesday''\<rparr>]\<rparr>)
   \<and> update_status sample_service ''scheduled'' 7 None
     = (Inl (ValueError ''Cannot transition to this status without assigned employee''),
        sample_service)"
proof -
  let ?a = "sample_service\<lparr>status := ''accepted'', employee_id := Some 7\<rparr>"
  have ok: "fst (update_status ?a ''scheduled'' 7 (Some ''Tuesday'')) = Inr ()"
    by (simp add: update_status_cases can_transition_to_def sample_service_def
          transitions_get_def STATUS_TRANSITIONS_def EMPLOYEE_REQUIRED_STATES_def status_defs
          truthy_int_def)
  have bad: "fst (update_status sample_service ''scheduled'' 7 None)
      = Inl (ValueError ''Cannot transition to this status without assigned employee'')"
    by (simp add: update_status_cases can_transition_to_def sample_service_def
          transitions_get_def STATUS_TRANSITIONS_def EMPLOYEE_REQUIRED_STATES_def status_defs
          truthy_int_def)
  from update_status_atomic [of ?a "''scheduled''" 7 "Some ''Tuesday''"] ok
  have 1: "snd (update_status ?a ''scheduled'' 7 (Some ''Tuesday'')) =
      ?a\<lparr>status := ''scheduled'',
         history := history ?a @ [status_change_entry ?a ''scheduled'' 7 (Some ''Tuesday'')]\<rparr>"
    by simp
  from update_status_atomic [of sample_service "''scheduled''" 7 None] bad
  have 2: "snd (update_status sample_service ''scheduled'' 7 None) = sample_service"
    by simp
  have e: "status_change_entry ?a ''scheduled'' 7 (Some ''Tuesday'') =
      \<lparr>hist_service_id = 1, hist_user_id = 7,
       hist_description = ''Status changed from accepted to scheduled: Tuesday''\<rparr>"
    by (simp add: status_change_entry_def sample_service_def)
  have h: "history ?a = []" by (simp add: sample_service_def)
  show ?thesis
    using ok bad 1 2 by (simp add: prod_eq_iff e h)
qed

text \<open>
  C4. \<open>update_status\<close> returns exactly when \<open>can_transition_to\<close> answers true, and
  raises otherwise. The error tells the two causes apart: when the target is
  employee-required and no employee is set, its message is "Cannot transition to this
  status without assigned employee", otherwise it is "Invalid status transition from
  old to new", and the two messages are never the same string. From pending with no
  employee, the target scheduled gets the missing-employee message, although pending has
  no edge to scheduled either. Either way the service is left as it was.
\<close>

theorem update_status_errors:
  "(fst (update_status s t u n) = Inr ()) = fst (can_transition_to s t)
   \<and> (t \<in> set EMPLOYEE_REQUIRED_STATES \<and> \<not> truthy_int (employee_id s) \<longrightarrow>
        update_status s t u n =
          (Inl (ValueError ''Cannot transition to this status without assigned employee''), s))
   \<and> (\<not> fst (can_transition_to s t) \<and>
       \<not> (t \<in> set EMPLOYEE_REQUIRED_STATES \<and> \<not> truthy_int (employee_id s)) \<longrightarrow>
        update_status s t u n =
          (Inl (ValueError (''Invalid status transition from '' @ status s @ '' to '' @ t)), s))
   \<and> ''Cannot transition to this status without assigned employee''
        \<noteq> ''Invalid status transition from '' @ status s @ '' to '' @ t
   \<and> (status s = STATUS_PENDING \<and> employee_id s = None \<longrightarrow>
        update_status s STATUS_SCHEDULED u n =
          (Inl (ValueError ''Cannot transition to this status without assigned employee''), s))"
proof -
  have sched: "STATUS_SCHEDULED \<in> set EMPLOYEE_REQUIRED_STATES"
    by (simp add: EMPLOYEE_REQUIRED_STATES_def)
  have none: "employee_id s = None \<Longrightarrow> \<not> truthy_int (employee_id s)"
    by (simp add: truthy_int_def)
  have miss: "\<And>x. x \<in> set EMPLOYEE_REQUIRED_STATES \<and> \<not> truthy_int (employee_id s) \<Longrightarrow>
        update_status s x u n =
          (Inl (ValueError ''Cannot transition to this status without assigned employee''), s)"
    by (simp add: update_status_cases can_transition_to_def)
  show ?thesis
    using miss [of t] miss [of STATUS_SCHEDULED] sched none
    by (auto simp: update_status_cases)
qed

theorem update_status_errors_witness:
  "update_status sample_service ''scheduled'' 7 None
     = (Inl (ValueError ''Cannot transition to this status without assigned employee''),
        sample_service)
   \<and> update_status (sample_service\<lparr>employee_id := Some 7\<rparr>) ''scheduled'' 7 None
     = (Inl (ValueError ''Invalid status transition from pending to scheduled''),
        sample_service\<lparr>employee_id := Some 7\<rparr>)
   \<and> fst (update_status (sample_service\<lparr>employee_id := Some 7\<rparr>) ''accepted'' 7 None) = Inr ()"
  using update_status_errors [of sample_service "''scheduled''" 7 None]
        update_status_errors [of "sample_service\<lparr>employee_id := Some 7\<rparr>" "''scheduled''" 7 None]
        update_status_errors [of "sample_service\<lparr>employee_id := Some 7\<rparr>" "''accepted''" 7 None]
  by (simp add: can_transition_to_def sample_service_def
          transitions_get_def STATUS_TRANSITIONS_def EMPLOYEE_REQUIRED_STATES_def status_defs
          truthy_int_def)

text \<open>
  C10. The acting user does not change what \<open>update_status\<close> does: for two users the
  outcome is the same (both return, or both raise the same error), a raise leaves the
  service as it was for both, and on return the two services are the old one with the
  new status and one more history row with the same description; the rows differ in
  the user they are written for only.
\<close>

theorem update_status_actor_independent:
  "fst (update_status s t u1 n) = fst (update_status s t u2 n)
   \<and> (fst (update_status s t u1 n) \<noteq> Inr () \<longrightarrow>
        snd (update_status s t u1 n) = s \<and> snd (update_status s t u2 n) = s)
   \<and> (fst (update_status s t u1 n) = Inr () \<longrightarrow>
        (\<exists>d. snd (update_status s t u1 n) =
                s\<lparr>status := t, history := history s @
                  [\<lparr>hist_service_id = service_id s, hist_user_id = u1, hist_description = d\<rparr>]\<rparr>
           \<and> snd (update_status s t u2 n) =
                s\<lparr>status := t, history := history s @
                  [\<lparr>hist_service_id = service_id s, hist_user_id = u2, hist_description = d\<rparr>]\<rparr>))"
proof -
  let ?d = "''Status changed from '' @ status s @ '' to '' @ t @
             (case n of None \<Rightarrow> [] | Some i \<Rightarrow> if i = [] then [] else '': '' @ i)"
  have e: "\<And>u. status_change_entry s t u n =
      \<lparr>hist_service_id = service_id s, hist_user_id = u, hist_description = ?d\<rparr>"
    by (simp add: status_change_entry_def)
  have r: "\<And>u. fst (update_status s t u n) = Inr () \<Longrightarrow>
      snd (update_status s t u n) =
        s\<lparr>status := t, history := history s @
          [\<lparr>hist_service_id = service_id s, hist_user_id = u, hist_description = ?d\<rparr>]\<rparr>"
    by (simp add: update_status_cases e split: if_splits)
  have f: "fst (update_status s t u1 n) = fst (update_status s t u2 n)"
    by (simp add: update_status_cases)
  have u: "\<And>u. fst (update_status s t u n) \<noteq> Inr () \<Longrightarrow> snd (update_status s t u n) = s"
    by (simp add: update_status_cases split: if_splits)
  show ?thesis
  proof (cases "fst (update_status s t u1 n) = Inr ()")
    case True
    with f have "fst (update_status s t u2 n) = Inr ()" by simp
    with True r [of u1] r [of u2] f show ?thesis by blast
  next
    case False
    with f have "fst (update_status s t u2 n) \<noteq> Inr ()" by simp
    with False u [of u1] u [of u2] f show ?thesis by blast
  qed
qed


theorem update_status_actor_independent_witness:
  "fst (update_status (sample_service\<lparr>employee_id := Some 7\<rparr>) ''accepted'' 7 None) = Inr ()
   \<and> fst (update_status (sample_service\<lparr>employee_id := Some 7\<rparr>) ''accepted'' 2 None) = Inr ()
   \<and> update_status sample_service ''accepted'' 7 None
       = (Inl (ValueError ''Cannot transition to this status without assigned employee''),
          sample_service)
   \<and> update_status sample_service ''accepted'' 2 None
       = (Inl (ValueError ''Cannot transition to this status without assigned employee''),
          sample_service)"
proof -
  let ?a = "sample_service\<lparr>employee_id := Some 7\<rparr>"
  have ok: "fst (update_status ?a ''accepted'' 7 None) = Inr ()"
    by (simp add: update_status_cases can_transition_to_def sample_service_def
          transitions_get_def STATUS_TRANSITIONS_def EMPLOYEE_REQUIRED_STATES_def status_defs
          truthy_int_def)
  have bad: "fst (update_status sample_service ''accepted'' 7 None)
      = Inl (ValueError ''Cannot transition to this status without assigned employee'')"
    by (simp add: update_status_cases can_transition_to_def sample_service_def
          transitions_get_def STATUS_TRANSITIONS_def EMPLOYEE_REQUIRED_STATES_def status_defs
          truthy_int_def)
  from update_status_actor_independent [of ?a "''accepted''" 7 None 2] ok
  have 1: "fst (update_status ?a ''accepted'' 2 None) = Inr ()" by simp
  from update_status_actor_independent [of sample_service "''accepted''" 7 None 2] bad
  have 2: "fst (update_status sample_service ''accepted'' 2 None)
      = Inl (ValueError ''Cannot transition to this status without assigned employee'')"
    and 3: "snd (update_status sample_service ''accepted'' 7 None) = sample_service"
    and 4: "snd (update_status sample_service ''accepted'' 2 None) = sample_service"
    by simp_all
  show ?thesis using ok bad 1 2 3 4 by (simp add: prod_eq_iff)
qed

section \<open>Employee assignment\<close>

text \<open>
  C5. When the user \<open>e\<close> exists: on a pending service \<open>assign_employee\<close> sets the
  status to accepted and appends the history row "Service assigned to" with the
  employee's full name; on a service in any other status, finished and cancelled
  included, it leaves the status alone and appends "Service reassigned from ... to ...",
  where the old name is "None" when no employee was there. In both cases
  \<open>employee_id\<close> becomes \<open>e\<close> and nothing else changes.
\<close>

theorem assign_employee_effect:
  assumes "users e = Some emp"
  shows "(status s = STATUS_PENDING \<longrightarrow>
            assign_employee users s e u =
              (Inr (), s\<lparr>status := STATUS_ACCEPTED, employee_id := Some e,
                 history := history s @
                   [\<lparr>hist_service_id = service_id s, hist_user_id = u,
                     hist_description = ''Service assigned to '' @ get_full_name emp\<rparr>]\<rparr>))
       \<and> (status s \<noteq> STATUS_PENDING \<longrightarrow>
            assign_employee users s e u =
              (Inr (), s\<lparr>employee_id := Some e,
                 history := history s @
                   [\<lparr>hist_service_id = service_id s, hist_user_id = u,
                     hist_description = ''Service reassigned from '' @
                       (case employee users s of
                          Some old \<Rightarrow> get_full_name old | None \<Rightarrow> ''None'') @
                       '' to '' @ get_full_name emp\<rparr>]\<rparr>)
            \<and> status (snd (assign_employee users s e u)) = status s)"
  using assms by (simp add: assign_employee_def add_history_entry_def Let_def)

theorem assign_employee_effect_witness:
  "assign_employee sample_users sample_service 7 5 =
     (Inr (), sample_service\<lparr>status := ''accepted'', employee_id := Some 7,
        history := [\<lparr>hist_service_id = 1, hist_user_id = 5,
                     hist_description = ''Service assigned to Anna Nowak''\<rparr>]\<rparr>)
   \<and> assign_employee sample_users (sample_service\<lparr>status := ''finished''\<rparr>) 7 5 =
     (Inr (), sample_service\<lparr>status := ''finished'', employee_id := Some 7,
        history := [\<lparr>hist_service_id = 1, hist_user_id = 5,
                     hist_description = ''Service reassigned from None to Anna Nowak''\<rparr>]\<rparr>)"
proof -
  have u: "sample_users 7 = Some \<lparr>user_id = 7, username = ''anowak'', role = ''employee'',
                          first_name = Some ''Anna'', last_name = Some ''Nowak''\<rparr>"
    by (simp add: sample_users_def)
  note a = assign_employee_effect [where users = sample_users and e = 7 and u = 5, OF u]
  show ?thesis
    using a [where s = sample_service]
          a [where s = "sample_service\<lparr>status := ''finished''\<rparr>"]
    by (simp add: sample_service_def status_defs get_full_name_def employee_def)
qed

section \<open>Date changes requested by the client\<close>

lemma client_request_cases:
  "request_date_change strftime s d u True =
     (if status s \<in> {''pending'', ''accepted'', ''scheduled''}
      then (Inr (), s\<lparr>preferred_date := Some d, status := ''pending'',
              history := history s @
                [\<lparr>hist_service_id = service_id s, hist_user_id = u,
                  hist_description = ''Client requested date change to '' @ strftime d\<rparr>]\<rparr>)
      else (Inl (ValueError
              ''Client can only request date changes for pending or scheduled services''), s))"
  by (simp add: request_date_change_def add_history_entry_def status_defs Let_def)

text \<open>
  C6. The class says that a client can request a date change in the states scheduled and
  client_confirmed (\<open>CLIENT_DATE_CHANGE_STATES\<close>, \<open>can_client_request_date_change\<close>),
  but \<open>request_date_change\<close> tests the status against pending, accepted and scheduled.
  For a client_confirmed service the query answers true and the request raises
  ValueError, leaving the service as it was; for a pending service the query answers
  false and the request goes through, writing the preferred date and a history row.
\<close>

theorem request_date_change_client_confirmed_refused:
  "fst (can_client_request_date_change
          (sample_service\<lparr>status := ''client_confirmed'', employee_id := Some 7\<rparr>))
   \<and> request_date_change (take 10)
        (sample_service\<lparr>status := ''client_confirmed'', employee_id := Some 7\<rparr>)
        ''2025-04-02T10:00'' 2 True
     = (Inl (ValueError
          ''Client can only request date changes for pending or scheduled services''),
        sample_service\<lparr>status := ''client_confirmed'', employee_id := Some 7\<rparr>)
   \<and> \<not> fst (can_client_request_date_change sample_service)
   \<and> request_date_change (take 10) sample_service ''2025-04-02T10:00'' 2 True
     = (Inr (), sample_service\<lparr>preferred_date := Some ''2025-04-02T10:00'',
          history := [\<lparr>hist_service_id = 1, hist_user_id = 2,
            hist_description = ''Client requested date change to 2025-04-02''\<rparr>]\<rparr>)"
  by (simp add: client_request_cases can_client_request_date_change_def
        CLIENT_DATE_CHANGE_STATES_def sample_service_def status_defs)

section \<open>Cancellation\<close>

lemma cancel_cases:
  "cancel s u r =
     (if ''cancelled'' \<in> set (transitions_get (status s))
      then (Inr (), s\<lparr>status := ''cancelled'',
              history := history s @
                [\<lparr>hist_service_id = service_id s, hist_user_id = u,
                  hist_description = ''Service cancelled'' @
                    (case r of None \<Rightarrow> [] | Some x \<Rightarrow> if x = [] then [] else '': '' @ x)\<rparr>]\<rparr>)
      else (Inl (ValueError ''Service cannot be cancelled in its current state''), s))"
proof -
  have "STATUS_CANCELLED \<notin> set EMPLOYEE_REQUIRED_STATES"
    by (simp add: EMPLOYEE_REQUIRED_STATES_def status_defs)
  then show ?thesis
    by (simp add: cancel_def can_transition_to_def add_history_entry_def Let_def
          split: option.split) (simp add: status_defs)
qed

lemma cancel_edge:
  "(''cancelled'' \<in> set (transitions_get st)) =
     (st \<in> set spec_states \<and> st \<noteq> ''finished'' \<and> st \<noteq> ''cancelled'')"
  unfolding transitions_get_spec
  by (auto simp: spec_edges_def spec_states_def)

text \<open>
  C7, as amended. \<open>can_client_cancel\<close> answers true exactly in the states pending,
  scheduled and client_confirmed, and changes nothing. \<open>cancel\<close> does not ask it: it
  asks \<open>can_transition_to\<close> for the target cancelled, so it returns exactly when the
  status is one of the eighteen states other than finished and cancelled, and then the
  status is cancelled; in every other case it raises ValueError "Service cannot be
  cancelled in its current state" and leaves the service as it was.
\<close>

theorem cancel_guard:
  "fst (can_client_cancel s) = (status s \<in> {''pending'', ''scheduled'', ''client_confirmed''})
   \<and> snd (can_client_cancel s) = s
   \<and> (fst (cancel s u r) = Inr ()) =
       (status s \<in> set spec_states \<and> status s \<noteq> ''finished'' \<and> status s \<noteq> ''cancelled'')
   \<and> (fst (cancel s u r) \<noteq> Inr () \<longrightarrow>
        cancel s u r =
          (Inl (ValueError ''Service cannot be cancelled in its current state''), s))
   \<and> (fst (cancel s u r) = Inr () \<longrightarrow> status (snd (cancel s u r)) = ''cancelled'')"
  by (simp add: cancel_cases cancel_edge can_client_cancel_def CLIENT_CANCELLABLE_STATES_def
        status_defs)

theorem cancel_accepted_succeeds:
  "status (sample_service\<lparr>status := ''accepted'', employee_id := Some 7\<rparr>)
     \<notin> {''pending'', ''scheduled'', ''client_confirmed''}
   \<and> cancel (sample_service\<lparr>status := ''accepted'', employee_id := Some 7\<rparr>) 2
        (Some ''sold the car'')
     = (Inr (), sample_service\<lparr>status := ''cancelled'', employee_id := Some 7,
          history := [\<lparr>hist_service_id = 1, hist_user_id = 2,
            hist_description = ''Service cancelled: sold the car''\<rparr>]\<rparr>)"
  by (simp add: cancel_cases cancel_edge spec_states_def sample_service_def status_defs)

theorem cancel_guard_witness:
  "cancel (sample_service\<lparr>status := ''finished'', employee_id := Some 7\<rparr>) 2 None
     = (Inl (ValueError ''Service cannot be cancelled in its current state''),
        sample_service\<lparr>status := ''finished'', employee_id := Some 7\<rparr>)
   \<and> fst (cancel (sample_service\<lparr>status := ''in_progress'', employee_id := Some 7\<rparr>) 2 None)
       = Inr ()
   \<and> fst (can_client_cancel sample_service)"
  using cancel_guard [of "sample_service\<lparr>status := ''finished'', employee_id := Some 7\<rparr>" 2 None]
        cancel_guard [of "sample_service\<lparr>status := ''in_progress'', employee_id := Some 7\<rparr>" 2 None]
        cancel_guard [of sample_service]
  by (simp add: spec_states_def sample_service_def status_defs)

section \<open>Cost fields\<close>

lemma validate_costs_refused:
  "cost_refused float e \<Longrightarrow>
   validate_costs float s e a =
     (Inl (ValueError ''Estimated cost must be a valid number''), s)"
  by (cases e) (auto simp: validate_costs_def cost_refused_def split: option.splits)

lemma validate_costs_estimated:
  "estimated_cost (snd (validate_costs float s e a)) =
     (case e of
        None \<Rightarrow> estimated_cost s
      | Some x \<Rightarrow> if x = [] then None
                  else (case float x of None \<Rightarrow> estimated_cost s | Some v \<Rightarrow> Some v))"
  by (cases e; cases a) (auto simp: validate_costs_def split: option.splits)

lemma validate_costs_actual:
  "actual_cost (snd (validate_costs float s e a)) =
     (if cost_refused float e then actual_cost s
      else (case a of
              None \<Rightarrow> actual_cost s
            | Some x \<Rightarrow> if x = [] then None
                        else (case float x of None \<Rightarrow> actual_cost s | Some v \<Rightarrow> Some v)))"
  by (cases e; cases a) (auto simp: validate_costs_def cost_refused_def split: option.splits)

lemma validate_costs_outcome:
  "fst (validate_costs float s e a) =
     (if cost_refused float e then Inl (ValueError ''Estimated cost must be a valid number'')
      else if cost_refused float a then Inl (ValueError ''Actual cost must be a valid number'')
      else Inr ())"
  by (cases e; cases a) (auto simp: validate_costs_def cost_refused_def split: option.splits)

lemma validate_costs_frame:
  "(snd (validate_costs float s e a))
      \<lparr>estimated_cost := estimated_cost s, actual_cost := actual_cost s\<rparr> = s"
  by (cases e; cases a) (auto simp: validate_costs_def split: option.splits)

lemma validate_costs_alone:
  "validate_costs float s (Some []) None = (Inr (), s\<lparr>estimated_cost := None\<rparr>)"
  "validate_costs float s None (Some []) = (Inr (), s\<lparr>actual_cost := None\<rparr>)"
  "x \<noteq> [] \<Longrightarrow> float x = Some v \<Longrightarrow>
     validate_costs float s (Some x) None = (Inr (), s\<lparr>estimated_cost := Some v\<rparr>)"
  "x \<noteq> [] \<Longrightarrow> float x = Some v \<Longrightarrow>
     validate_costs float s None (Some x) = (Inr (), s\<lparr>actual_cost := Some v\<rparr>)"
  "x \<noteq> [] \<Longrightarrow> float x = None \<Longrightarrow>
     validate_costs float s None (Some x) =
       (Inl (ValueError ''Actual cost must be a valid number''), s)"
  by (simp_all add: validate_costs_def)

text \<open>
  C8. \<open>validate_costs\<close> runs the estimated-cost setter, then the actual-cost setter,
  whatever the other argument is. The estimated-cost setter: the empty string clears
  \<open>estimated_cost\<close>; a non-empty string that \<open>float\<close> accepts, such as "150.5",
  stores the number \<open>float\<close> returns; a non-empty string that \<open>float\<close> refuses,
  such as "abc", raises ValueError "Estimated cost must be a valid number" and leaves the
  whole service as it was. The actual-cost setter runs when the estimated-cost input
  did not raise, and then does the same on \<open>actual_cost\<close>: empty clears, an accepted
  string stores, a refused string raises ValueError "Actual cost must be a valid number"
  and leaves \<open>actual_cost\<close> as it was. The call returns exactly when neither input is
  refused, a missing input leaves its field alone, and no field other than the two
  costs ever changes.
\<close>

theorem validate_costs_setters:
  "estimated_cost (snd (validate_costs float s (Some []) a)) = None
   \<and> (x \<noteq> [] \<and> float x = Some v \<longrightarrow>
        estimated_cost (snd (validate_costs float s (Some x) a)) = Some v)
   \<and> (x \<noteq> [] \<and> float x = None \<longrightarrow>
        validate_costs float s (Some x) a =
          (Inl (ValueError ''Estimated cost must be a valid number''), s))
   \<and> (\<not> cost_refused float e \<longrightarrow>
        actual_cost (snd (validate_costs float s e (Some []))) = None
        \<and> (x \<noteq> [] \<and> float x = Some v \<longrightarrow>
             actual_cost (snd (validate_costs float s e (Some x))) = Some v)
        \<and> (x \<noteq> [] \<and> float x = None \<longrightarrow>
             fst (validate_costs float s e (Some x)) =
               Inl (ValueError ''Actual cost must be a valid number'')
             \<and> actual_cost (snd (validate_costs float s e (Some x))) = actual_cost s))
   \<and> (x \<noteq> [] \<and> float x = None \<longrightarrow>
        validate_costs float s None (Some x) =
          (Inl (ValueError ''Actual cost must be a valid number''), s))
   \<and> (fst (validate_costs float s e a) = Inr ())
        = (\<not> cost_refused float e \<and> \<not> cost_refused float a)
   \<and> estimated_cost (snd (validate_costs float s None a)) = estimated_cost s
   \<and> actual_cost (snd (validate_costs float s e None)) = actual_cost s
   \<and> (snd (validate_costs float s e a))
        \<lparr>estimated_cost := estimated_cost s, actual_cost := actual_cost s\<rparr> = s
   \<and> validate_costs float s (Some []) None = (Inr (), s\<lparr>estimated_cost := None\<rparr>)
   \<and> validate_costs float s None (Some []) = (Inr (), s\<lparr>actual_cost := None\<rparr>)
   \<and> (x \<noteq> [] \<and> float x = Some v \<longrightarrow>
        validate_costs float s (Some x) None = (Inr (), s\<lparr>estimated_cost := Some v\<rparr>)
        \<and> validate_costs float s None (Some x) = (Inr (), s\<lparr>actual_cost := Some v\<rparr>))"
proof -
  have r: "x \<noteq> [] \<and> float x = None \<Longrightarrow> cost_refused float (Some x)"
    by (simp add: cost_refused_def)
  show ?thesis
    using validate_costs_refused [OF r, of s a]
    by (simp add: validate_costs_estimated validate_costs_actual validate_costs_outcome
          validate_costs_frame validate_costs_alone)
       (simp add: cost_refused_def)
qed

theorem validate_costs_setters_witness:
  "fst (validate_costs sample_float
          (sample_service\<lparr>estimated_cost := Some 80, actual_cost := Some 90\<rparr>)
          (Some []) (Some ''150.5'')) = Inr ()
   \<and> estimated_cost (snd (validate_costs sample_float
          (sample_service\<lparr>estimated_cost := Some 80, actual_cost := Some 90\<rparr>)
          (Some []) (Some ''150.5''))) = None
   \<and> actual_cost (snd (validate_costs sample_float
          (sample_service\<lparr>estimated_cost := Some 80, actual_cost := Some 90\<rparr>)
          (Some []) (Some ''150.5''))) = Some 150.5
   \<and> estimated_cost (snd (validate_costs sample_float
          (sample_service\<lparr>estimated_cost := Some 80, actual_cost := Some 90\<rparr>)
          (Some ''150.5'') (Some []))) = Some 150.5
   \<and> actual_cost (snd (validate_costs sample_float
          (sample_service\<lparr>estimated_cost := Some 80, actual_cost := Some 90\<rparr>)
          (Some ''150.5'') (Some []))) = None
   \<and> validate_costs sample_float
          (sample_service\<lparr>estimated_cost := Some 80, actual_cost := Some 90\<rparr>)
          (Some ''abc'') (Some ''150.5'')
       = (Inl (ValueError ''Estimated cost must be a valid number''),
          sample_service\<lparr>estimated_cost := Some 80, actual_cost := Some 90\<rparr>)
   \<and> fst (validate_costs sample_float
          (sample_service\<lparr>estimated_cost := Some 80, actual_cost := Some 90\<rparr>)
          (Some ''150.5'') (Some ''abc''))
       = Inl (ValueError ''Actual cost must be a valid number'')
   \<and> actual_cost (snd (validate_costs sample_float
          (sample_service\<lparr>estimated_cost := Some 80, actual_cost := Some 90\<rparr>)
          (Some ''150.5'') (Some ''abc''))) = Some 90
   \<and> validate_costs sample_float
          (sample_service\<lparr>estimated_cost := Some 80, actual_cost := Some 90\<rparr>)
          None (Some ''abc'')
       = (Inl (ValueError ''Actual cost must be a valid number''),
          sample_service\<lparr>estimated_cost := Some 80, actual_cost := Some 90\<rparr>)"
proof -
  let ?s = "sample_service\<lparr>estimated_cost := Some 80, actual_cost := Some 90\<rparr>"
  have ok: "sample_float ''150.5'' = Some 150.5" and bad: "sample_float ''abc'' = None"
    by (simp_all add: sample_float_def)
  have e1: "\<not> cost_refused sample_float (Some [])"
    and e2: "\<not> cost_refused sample_float (Some ''150.5'')"
    by (simp_all add: cost_refused_def sample_float_def)
  have a: "actual_cost ?s = Some 90" by simp
  note t = validate_costs_setters [where float = sample_float and s = ?s]
  from t [where a = "Some ''150.5''" and e = "Some []" and x = "''150.5''" and v = "150.5"]
       ok e1 e2
  have 1: "fst (validate_costs sample_float ?s (Some []) (Some ''150.5'')) = Inr ()"
    and 2: "estimated_cost (snd (validate_costs sample_float ?s (Some []) (Some ''150.5'')))
              = None"
    and 3: "actual_cost (snd (validate_costs sample_float ?s (Some []) (Some ''150.5'')))
              = Some 150.5"
    by simp_all
  from t [where a = "Some []" and e = "Some ''150.5''" and x = "''150.5''" and v = "150.5"]
       ok e2
  have 4: "estimated_cost (snd (validate_costs sample_float ?s (Some ''150.5'') (Some [])))
              = Some 150.5"
    and 5: "actual_cost (snd (validate_costs sample_float ?s (Some ''150.5'') (Some [])))
              = None"
    by simp_all
  from t [where a = "Some ''150.5''" and e = "Some ''150.5''" and x = "''abc''"] bad e2 a
  have 6: "validate_costs sample_float ?s (Some ''abc'') (Some ''150.5'')
             = (Inl (ValueError ''Estimated cost must be a valid number''), ?s)"
    and 7: "fst (validate_costs sample_float ?s (Some ''150.5'') (Some ''abc''))
             = Inl (ValueError ''Actual cost must be a valid number'')"
    and 8: "actual_cost (snd (validate_costs sample_float ?s (Some ''150.5'') (Some ''abc'')))
             = Some 90"
    and 9: "validate_costs sample_float ?s None (Some ''abc'')
             = (Inl (ValueError ''Actual cost must be a valid number''), ?s)"
    by simp_all
  from 1 2 3 4 5 6 7 8 9 show ?thesis by simp
qed

section \<open>Vehicle forms\<close>

lemma find_unique:
  "distinct (map f xs) \<Longrightarrow> (find (\<lambda>v. f v = k) xs = Some x) = (x \<in> set xs \<and> f x = k)"
  by (induction xs) (auto simp: image_iff)

lemma find_none: "(find P xs = None) = (\<forall>x\<in>set xs. \<not> P x)"
  by (induction xs) auto

lemma validate_vin_iff:
  assumes "distinct (map vin vehicles)"
  shows "(validate_vin vehicles own v = Inl (ValidationError ''This VIN is already registered.''))
          = (\<exists>x\<in>set vehicles. vin x = v \<and> other_vehicle own x)"
    and "(validate_vin vehicles own v = Inr ())
          = (\<not> (\<exists>x\<in>set vehicles. vin x = v \<and> other_vehicle own x))"
proof -
  show "(validate_vin vehicles own v = Inl (ValidationError ''This VIN is already registered.''))
          = (\<exists>x\<in>set vehicles. vin x = v \<and> other_vehicle own x)"
  proof (cases "find (\<lambda>x. vin x = v) vehicles")
    case None
    then have "\<forall>x\<in>set vehicles. vin x \<noteq> v"
      by (simp add: find_none)
    moreover from None have "validate_vin vehicles own v = Inr ()"
      by (simp add: validate_vin_def)
    ultimately show ?thesis by auto
  next
    case (Some y)
    have u: "(x \<in> set vehicles \<and> vin x = v) = (x = y)" for x
    proof -
      have "(find (\<lambda>x. vin x = v) vehicles = Some x) = (x \<in> set vehicles \<and> vin x = v)"
        by (rule find_unique [OF assms])
      with Some show ?thesis by auto
    qed
    from u [of y] have y: "y \<in> set vehicles" "vin y = v" by simp_all
    have only: "x \<in> set vehicles \<Longrightarrow> vin x = v \<Longrightarrow> x = y" for x
      using u [of x] by blast
    have "(\<exists>x\<in>set vehicles. vin x = v \<and> other_vehicle own x) = other_vehicle own y"
      using y only by blast
    with Some show ?thesis
      by (simp add: validate_vin_def other_vehicle_def split: option.split)
  qed
  then show "(validate_vin vehicles own v = Inr ())
          = (\<not> (\<exists>x\<in>set vehicles. vin x = v \<and> other_vehicle own x))"
    by (auto simp: validate_vin_def split: option.splits if_splits)
qed

lemma validate_license_plate_iff:
  assumes "distinct (map license_plate vehicles)"
  shows "(validate_license_plate vehicles own p =
            Inl (ValidationError ''This license plate is already registered.''))
          = (\<exists>x\<in>set vehicles. license_plate x = p \<and> other_vehicle own x)"
    and "(validate_license_plate vehicles own p = Inr ())
          = (\<not> (\<exists>x\<in>set vehicles. license_plate x = p \<and> other_vehicle own x))"
proof -
  show "(validate_license_plate vehicles own p =
            Inl (ValidationError ''This license plate is already registered.''))
          = (\<exists>x\<in>set vehicles. license_plate x = p \<and> other_vehicle own x)"
  proof (cases "find (\<lambda>x. license_plate x = p) vehicles")
    case None
    then have "\<forall>x\<in>set vehicles. license_plate x \<noteq> p"
      by (simp add: find_none)
    moreover from None have "validate_license_plate vehicles own p = Inr ()"
      by (simp add: validate_license_plate_def)
    ultimately show ?thesis by auto
  next
    case (Some y)
    have u: "(x \<in> set vehicles \<and> license_plate x = p) = (x = y)" for x
    proof -
      have "(find (\<lambda>x. license_plate x = p) vehicles = Some x)
              = (x \<in> set vehicles \<and> license_plate x = p)"
        by (rule find_unique [OF assms])
      with Some show ?thesis by auto
    qed
    from u [of y] have y: "y \<in> set vehicles" "license_plate y = p" by simp_all
    have only: "x \<in> set vehicles \<Longrightarrow> license_plate x = p \<Longrightarrow> x = y" for x
      using u [of x] by blast
    have "(\<exists>x\<in>set vehicles. license_plate x = p \<and> other_vehicle own x) = other_vehicle own y"
      using y only by blast
    with Some show ?thesis
      by (simp add: validate_license_plate_def other_vehicle_def split: option.split)
  qed
  then show "(validate_license_plate vehicles own p = Inr ())
          = (\<not> (\<exists>x\<in>set vehicles. license_plate x = p \<and> other_vehicle own x))"
    by (auto simp: validate_license_plate_def split: option.splits if_splits)
qed

lemma validate_year_iff:
  "(validate_year now_year message (Some y) = Inr ()) = (1900 \<le> y \<and> y \<le> now_year + 1)"
  by (auto simp: validate_year_def DataRequired_def NumberRange_def)

lemma employee_validate_year_iff:
  "(employee_validate_year now_year (Some y) = Inr ()) = (1900 \<le> y \<and> y \<le> now_year)"
  by (auto simp: employee_validate_year_def DataRequired_def NumberRange_def)

text \<open>
  C9, as amended. The table keeps VINs and license plates unique (both columns are
  declared \<open>unique=True\<close>). Then each of the three forms raises one of its two
  uniqueness errors exactly when another vehicle has the submitted VIN or another
  vehicle has the submitted plate, and both validators pass exactly when no other
  vehicle has either; on update a vehicle that keeps its own VIN and plate passes. An
  integer year passes the validators of \<open>VehicleForm\<close> and \<open>ClientVehicleForm\<close>
  exactly when it lies between 1900 and \<open>now_year + 1\<close>, and those of
  \<open>EmployeeVehicleForm\<close> exactly when it lies between 1900 and \<open>now_year\<close>.
\<close>

theorem vehicle_form_uniqueness_and_year:
  assumes "distinct (map vin vehicles)" and "distinct (map license_plate vehicles)"
  shows "((validate_vin vehicles own v = Inl (ValidationError ''This VIN is already registered.'')
           \<or> validate_license_plate vehicles own p =
               Inl (ValidationError ''This license plate is already registered.''))
          = (\<exists>x\<in>set vehicles. other_vehicle own x \<and> (vin x = v \<or> license_plate x = p)))
       \<and> ((validate_vin vehicles own v = Inr () \<and> validate_license_plate vehicles own p = Inr ())
          = (\<not> (\<exists>x\<in>set vehicles. other_vehicle own x \<and> (vin x = v \<or> license_plate x = p))))
       \<and> (w \<in> set vehicles \<longrightarrow>
            validate_vin vehicles (Some w) (vin w) = Inr ()
            \<and> validate_license_plate vehicles (Some w) (license_plate w) = Inr ())
       \<and> (validate_year now_year message (Some y) = Inr ()) = (1900 \<le> y \<and> y \<le> now_year + 1)
       \<and> (employee_validate_year now_year (Some y) = Inr ()) = (1900 \<le> y \<and> y \<le> now_year)"
proof -
  have own_vin: "w \<in> set vehicles \<Longrightarrow> validate_vin vehicles (Some w) (vin w) = Inr ()"
    using find_unique [OF assms(1), of "vin w" w]
    by (simp add: validate_vin_def)
  have own_plate: "w \<in> set vehicles \<Longrightarrow>
      validate_license_plate vehicles (Some w) (license_plate w) = Inr ()"
    using find_unique [OF assms(2), of "license_plate w" w]
    by (simp add: validate_license_plate_def)
  have coll: "(validate_vin vehicles own v = Inl (ValidationError ''This VIN is already registered.'')
           \<or> validate_license_plate vehicles own p =
               Inl (ValidationError ''This license plate is already registered.''))
          = (\<exists>x\<in>set vehicles. other_vehicle own x \<and> (vin x = v \<or> license_plate x = p))"
    unfolding validate_vin_iff [OF assms(1)] validate_license_plate_iff [OF assms(2)]
    by blast
  have pass: "(validate_vin vehicles own v = Inr () \<and> validate_license_plate vehicles own p = Inr ())
          = (\<not> (\<exists>x\<in>set vehicles. other_vehicle own x \<and> (vin x = v \<or> license_plate x = p)))"
    unfolding validate_vin_iff [OF assms(1)] validate_license_plate_iff [OF assms(2)]
    by blast
  show ?thesis
    unfolding coll pass validate_year_iff employee_validate_year_iff
    using own_vin own_plate by blast
qed

theorem employee_form_refuses_next_year:
  "(1900::int) \<le> 2026 \<and> (2026::int) \<le> 2025 + 1
   \<and> validate_year 2025 ''Year must be between 1900 and 2026.'' (Some 2026) = Inr ()
   \<and> employee_validate_year 2025 (Some 2026) =
       Inl (ValidationError ''Year must be between 1900 and current year'')"
  by (simp add: validate_year_def employee_validate_year_def DataRequired_def NumberRange_def)

theorem vehicle_form_uniqueness_and_year_witness:
  "distinct (map vin sample_vehicles) \<and> distinct (map license_plate sample_vehicles)
   \<and> validate_vin sample_vehicles None ''TMBJB16Y123456789''
       = Inl (ValidationError ''This VIN is already registered.'')
   \<and> validate_vin sample_vehicles (Some (hd sample_vehicles)) ''TMBJB16Y123456789'' = Inr ()
   \<and> validate_license_plate sample_vehicles (Some (hd sample_vehicles)) ''WA12345'' = Inr ()
   \<and> validate_license_plate sample_vehicles (Some (hd sample_vehicles)) ''KR98765''
       = Inl (ValidationError ''This license plate is already registered.'')
   \<and> validate_year 2025 ''Year must be between 1900 and 2026.'' (Some 2026) = Inr ()
   \<and> validate_year 2025 ''Year must be between 1900 and 2026.'' (Some 2027) \<noteq> Inr ()
   \<and> validate_year 2025 ''Year must be between 1900 and 2026.'' (Some 1899) \<noteq> Inr ()
   \<and> employee_validate_year 2025 (Some 2025) = Inr ()
   \<and> employee_validate_year 2025 (Some 2026) \<noteq> Inr ()"
proof -
  have d1: "distinct (map vin sample_vehicles)"
    by (simp add: sample_vehicles_def)
  have d2: "distinct (map license_plate sample_vehicles)"
    by (simp add: sample_vehicles_def)
  note t = vehicle_form_uniqueness_and_year [OF d1 d2]
  have m: "hd sample_vehicles \<in> set sample_vehicles"
    by (simp add: sample_vehicles_def)
  have a: "validate_vin sample_vehicles None ''TMBJB16Y123456789''
       = Inl (ValidationError ''This VIN is already registered.'')"
    by (simp add: validate_vin_def sample_vehicles_def)
  have b: "validate_license_plate sample_vehicles (Some (hd sample_vehicles)) ''KR98765''
       = Inl (ValidationError ''This license plate is already registered.'')"
    by (simp add: validate_license_plate_def sample_vehicles_def)
  have c: "vin (hd sample_vehicles) = ''TMBJB16Y123456789''"
    "license_plate (hd sample_vehicles) = ''WA12345''"
    by (simp_all add: sample_vehicles_def)
  from t [where w = "hd sample_vehicles"] m c
  have e: "validate_vin sample_vehicles (Some (hd sample_vehicles)) ''TMBJB16Y123456789'' = Inr ()"
    "validate_license_plate sample_vehicles (Some (hd sample_vehicles)) ''WA12345'' = Inr ()"
    by simp_all
  from t [where now_year = 2025 and message = "''Year must be between 1900 and 2026.''"]
  have y: "\<And>y. (validate_year 2025 ''Year must be between 1900 and 2026.'' (Some y) = Inr ())
             = (1900 \<le> y \<and> y \<le> 2026)"
    by simp
  from t [where now_year = 2025]
  have z: "\<And>y. (employee_validate_year 2025 (Some y) = Inr ()) = (1900 \<le> y \<and> y \<le> 2025)"
    by simp
  show ?thesis
    using d1 d2 a b e by (simp add: y z)
qed

section \<open>The employee rule along sequences of operations\<close>

lemma not_required: "''pending'' \<notin> set EMPLOYEE_REQUIRED_STATES"
  "''cancelled'' \<notin> set EMPLOYEE_REQUIRED_STATES"
  by (simp_all add: EMPLOYEE_REQUIRED_STATES_def status_defs)

lemma truthy_int_set: "truthy_int x \<Longrightarrow> x \<noteq> None"
  by (cases x) (simp_all add: truthy_int_def)

lemma update_status_invariant:
  "update_status s t u n = (Inr (), s') \<Longrightarrow> employee_invariant s'"
  by (auto simp: update_status_cases can_transition_to_def employee_invariant_def
        dest: truthy_int_set split: if_splits)

lemma assign_employee_invariant:
  "assign_employee users s e u = (Inr (), s') \<Longrightarrow> employee_invariant s'"
  by (auto simp: assign_employee_def add_history_entry_def employee_invariant_def Let_def
        split: if_splits option.splits)

lemma request_date_change_invariant:
  "request_date_change strftime s d u c = (Inr (), s') \<Longrightarrow> employee_invariant s'"
  by (auto simp: request_date_change_def add_history_entry_def employee_invariant_def Let_def
        not_required status_defs split: if_splits)

lemma confirm_date_invariant:
  "confirm_date s u = (Inr (), s') \<Longrightarrow> employee_invariant s'"
  by (auto simp: confirm_date_def add_history_entry_def employee_invariant_def
        dest: truthy_int_set split: if_splits)

lemma reject_date_invariant:
  "reject_date s u r = (Inr (), s') \<Longrightarrow> employee_invariant s'"
  by (auto simp: reject_date_def add_history_entry_def employee_invariant_def Let_def
        not_required status_defs split: if_splits option.splits)

lemma cancel_invariant:
  "cancel s u r = (Inr (), s') \<Longrightarrow> employee_invariant s'"
  by (auto simp: cancel_cases employee_invariant_def not_required split: if_splits)

lemma apply_op_invariant:
  "apply_op users strftime s op = (Inr (), s') \<Longrightarrow> employee_invariant s'"
  by (cases op)
    (simp_all add: update_status_invariant assign_employee_invariant
       request_date_change_invariant confirm_date_invariant reject_date_invariant
       cancel_invariant)

lemma run_ops_invariant:
  "employee_invariant s \<Longrightarrow> run_ops users strftime s ops = Some s' \<Longrightarrow> employee_invariant s'"
proof (induction ops arbitrary: s)
  case Nil
  then show ?case by simp
next
  case (Cons op ops)
  obtain r s1 where step: "apply_op users strftime s op = (r, s1)"
    by (cases "apply_op users strftime s op")
  with Cons.prems(2) obtain u where r: "r = Inr u" and rest: "run_ops users strftime s1 ops = Some s'"
    by (cases r) simp_all
  from step r have "employee_invariant s1"
    by (simp add: apply_op_invariant)
  with rest show ?case by (rule Cons.IH [rotated])
qed

text \<open>
  C3, as amended. Start from a service that is pending and has no employee and make any
  sequence of calls of \<open>update_status\<close>, \<open>assign_employee\<close>,
  \<open>request_date_change\<close>, \<open>confirm_date\<close>, \<open>reject_date\<close> and \<open>cancel\<close>, none
  of which raises. If the status reached is employee-required and is not scheduled,
  then \<open>employee_id\<close> is not \<open>None\<close>. The state scheduled is left out because
  \<open>request_date_change\<close> with \<open>is_client_request\<close> false sets it without looking at
  the employee.
\<close>

theorem employee_required_invariant:
  assumes "status s0 = STATUS_PENDING" and "employee_id s0 = None"
    and "run_ops users strftime s0 ops = Some s"
    and "status s \<in> set EMPLOYEE_REQUIRED_STATES" and "status s \<noteq> STATUS_SCHEDULED"
  shows "employee_id s \<noteq> None"
proof -
  from assms(1) have "employee_invariant s0"
    by (simp add: employee_invariant_def not_required status_defs)
  from run_ops_invariant [OF this assms(3)] assms(4,5) show ?thesis
    by (simp add: employee_invariant_def)
qed


theorem scheduled_without_employee:
  "status sample_service = ''pending'' \<and> employee_id sample_service = None
   \<and> run_ops sample_users (take 10) sample_service
         [RequestDateChange ''2025-04-02T10:00'' 7 False]
       = Some (sample_service\<lparr>status := ''scheduled'',
            preferred_date := Some ''2025-04-02T10:00'',
            scheduled_date := Some ''2025-04-02T10:00'',
            history := [\<lparr>hist_service_id = 1, hist_user_id = 7,
              hist_description = ''Employee proposed new date: 2025-04-02''\<rparr>]\<rparr>)
   \<and> ''scheduled'' \<in> set EMPLOYEE_REQUIRED_STATES
   \<and> employee_id (sample_service\<lparr>status := ''scheduled'',
            preferred_date := Some ''2025-04-02T10:00'',
            scheduled_date := Some ''2025-04-02T10:00'',
            history := [\<lparr>hist_service_id = 1, hist_user_id = 7,
              hist_description = ''Employee proposed new date: 2025-04-02''\<rparr>]\<rparr>) = None"
  by (simp add: request_date_change_def add_history_entry_def Let_def sample_service_def
        EMPLOYEE_REQUIRED_STATES_def status_defs)

theorem employee_required_invariant_witness:
  "status sample_service = STATUS_PENDING \<and> employee_id sample_service = None
   \<and> run_ops sample_users (take 10) sample_service
         [AssignEmployee 7 5, UpdateStatus ''scheduled'' 7 None, ConfirmDate 2]
       = Some (sample_service\<lparr>status := ''client_confirmed'', employee_id := Some 7,
            history :=
              [\<lparr>hist_service_id = 1, hist_user_id = 5,
                 hist_description = ''Service assigned to Anna Nowak''\<rparr>,
               \<lparr>hist_service_id = 1, hist_user_id = 7,
                 hist_description = ''Status changed from accepted to scheduled''\<rparr>,
               \<lparr>hist_service_id = 1, hist_user_id = 2,
                 hist_description = ''Client confirmed the scheduled date''\<rparr>]\<rparr>)
   \<and> ''client_confirmed'' \<in> set EMPLOYEE_REQUIRED_STATES
   \<and> ''client_confirmed'' \<noteq> STATUS_SCHEDULED
   \<and> employee_id (sample_service\<lparr>status := ''client_confirmed'', employee_id := Some 7,
            history :=
              [\<lparr>hist_service_id = 1, hist_user_id = 5,
                 hist_description = ''Service assigned to Anna Nowak''\<rparr>,
               \<lparr>hist_service_id = 1, hist_user_id = 7,
                 hist_description = ''Status changed from accepted to scheduled''\<rparr>,
               \<lparr>hist_service_id = 1, hist_user_id = 2,
                 hist_description = ''Client confirmed the scheduled date''\<rparr>]\<rparr>) \<noteq> None"
proof -
  let ?s3 = "sample_service\<lparr>status := ''client_confirmed'', employee_id := Some 7,
            history :=
              [\<lparr>hist_service_id = 1, hist_user_id = 5,
                 hist_description = ''Service assigned to Anna Nowak''\<rparr>,
               \<lparr>hist_service_id = 1, hist_user_id = 7,
                 hist_description = ''Status changed from accepted to scheduled''\<rparr>,
               \<lparr>hist_service_id = 1, hist_user_id = 2,
                 hist_description = ''Client confirmed the scheduled date''\<rparr>]\<rparr>"
  have p: "status sample_service = STATUS_PENDING" and n: "employee_id sample_service = None"
    by (simp_all add: sample_service_def)
  have s1: "assign_employee sample_users sample_service 7 5 =
      (Inr (), sample_service\<lparr>status := ''accepted'', employee_id := Some 7,
         history := [\<lparr>hist_service_id = 1, hist_user_id = 5,
                      hist_description = ''Service assigned to Anna Nowak''\<rparr>]\<rparr>)"
    by (simp add: assign_employee_def add_history_entry_def sample_users_def
          get_full_name_def sample_service_def status_defs)
  have s2: "update_status (sample_service\<lparr>status := ''accepted'', employee_id := Some 7,
         history := [\<lparr>hist_service_id = 1, hist_user_id = 5,
                      hist_description = ''Service assigned to Anna Nowak''\<rparr>]\<rparr>)
        ''scheduled'' 7 None =
      (Inr (), sample_service\<lparr>status := ''scheduled'', employee_id := Some 7,
         history := [\<lparr>hist_service_id = 1, hist_user_id = 5,
                      hist_description = ''Service assigned to Anna Nowak''\<rparr>,
                     \<lparr>hist_service_id = 1, hist_user_id = 7,
                      hist_description = ''Status changed from accepted to scheduled''\<rparr>]\<rparr>)"
    by (simp add: update_status_cases can_transition_to_def status_change_entry_def
          transitions_get_def STATUS_TRANSITIONS_def EMPLOYEE_REQUIRED_STATES_def
          truthy_int_def sample_service_def status_defs)
  have s3: "confirm_date (sample_service\<lparr>status := ''scheduled'', employee_id := Some 7,
         history := [\<lparr>hist_service_id = 1, hist_user_id = 5,
                      hist_description = ''Service assigned to Anna Nowak''\<rparr>,
                     \<lparr>hist_service_id = 1, hist_user_id = 7,
                      hist_description = ''Status changed from accepted to scheduled''\<rparr>]\<rparr>) 2
      = (Inr (), ?s3)"
    by (simp add: confirm_date_def add_history_entry_def truthy_int_def sample_service_def
          status_defs)
  have run: "run_ops sample_users (take 10) sample_service
         [AssignEmployee 7 5, UpdateStatus ''scheduled'' 7 None, ConfirmDate 2] = Some ?s3"
    by (simp add: s1 s2 s3)
  have r: "status ?s3 \<in> set EMPLOYEE_REQUIRED_STATES" and ns: "status ?s3 \<noteq> STATUS_SCHEDULED"
    by (simp_all add: EMPLOYEE_REQUIRED_STATES_def status_defs)
  from employee_required_invariant [OF p n run r ns] run p n r ns
  show ?thesis by simp
qed

end
